theory Spec2Isabelle
  imports Main "HOL-Library.Word"
begin

section \<open>Texts\<close>

text \<open>
  A JavaScript string is a sequence of UTF-16 code units. A literal of the source is
  written \<open>str ''...''\<close>.
\<close>

type_synonym jschar = "16 word"
type_synonym jsstring = "jschar list"

definition str :: "string \<Rightarrow> jsstring" where
  "str s = map of_char s"

text \<open>
  The code units that \<^verbatim>\<open>String.prototype.trim\<close> removes: the WhiteSpace and
  LineTerminator code points of ECMAScript.
\<close>

definition isWhiteSpace :: "jschar \<Rightarrow> bool" where
  "isWhiteSpace c = (c \<in> set [0x0009, 0x000A, 0x000B, 0x000C, 0x000D, 0x0020, 0x00A0, 0x1680,
     0x2000, 0x2001, 0x2002, 0x2003, 0x2004, 0x2005, 0x2006, 0x2007, 0x2008, 0x2009, 0x200A,
     0x2028, 0x2029, 0x202F, 0x205F, 0x3000, 0xFEFF])"

definition trim :: "jsstring \<Rightarrow> jsstring" where
  "trim s = rev (dropWhile isWhiteSpace (rev (dropWhile isWhiteSpace s)))"

text \<open>\<^verbatim>\<open>s.replace(/\*/g, '')\<close>: every asterisk (U+002A) is removed.\<close>

definition removeAsterisks :: "jsstring \<Rightarrow> jsstring" where
  "removeAsterisks s = filter (\<lambda>c. c \<noteq> 0x2A) s"

text \<open>
  The truth value JavaScript gives a \<^verbatim>\<open>string | null\<close> in a condition:
  \<^verbatim>\<open>null\<close> and the empty string are false.
\<close>

definition truthy :: "jsstring option \<Rightarrow> bool" where
  "truthy v = (case v of None \<Rightarrow> False | Some t \<Rightarrow> t \<noteq> [])"

section \<open>The settings provider\<close>

datatype Language = English | Tamil

subsection \<open>Translation cache\<close>

text \<open>
  \<^verbatim>\<open>translationCache\<close> is a dictionary from a text to a dictionary from a language
  to the translation. The model covers the keys the dictionary owns; property names that a
  JavaScript object inherits are not modelled. \<open>calls\<close> lists the arguments of every
  call of the external \<^verbatim>\<open>translateText\<close>.
\<close>

record translator =
  translationCache :: "jsstring \<rightharpoonup> (Language \<rightharpoonup> jsstring)"
  calls :: "(jsstring \<times> Language) list"

text \<open>
  \<^verbatim>\<open>translationCache.current[text]?.[language]\<close>, as the condition reads it.
\<close>

definition cached :: "translator \<Rightarrow> jsstring \<Rightarrow> Language \<Rightarrow> jsstring option" where
  "cached s text language =
     (case translationCache s text of
        None \<Rightarrow> None
      | Some entry \<Rightarrow> entry language)"

text \<open>
  \<^verbatim>\<open>translate\<close> closes over the provider's \<open>language\<close>. It suspends at
  \<^verbatim>\<open>await translateText(text, language)\<close>, so it is two definitions. The first is the
  part up to the \<^verbatim>\<open>await\<close>: it returns a text, or makes the call and is left
  awaiting its answer.
\<close>

datatype outcome = Returned jsstring | Awaiting

definition translate_begin :: "Language \<Rightarrow> jsstring \<Rightarrow> translator \<Rightarrow> outcome \<times> translator" where
  "translate_begin language text s =
     (if language = English then (Returned text, s)
      else if truthy (cached s text language) then (Returned (the (cached s text language)), s)
      else (Awaiting, s\<lparr>calls := calls s @ [(text, language)]\<rparr>))"

text \<open>
  The second is the part after the \<^verbatim>\<open>await\<close>, with \<open>translated\<close> what the call
  resolved to. It acts on the translator as it is when the call resolves. The result is
  the returned text and the translator afterwards.
\<close>

definition translate_resume ::
    "Language \<Rightarrow> jsstring \<Rightarrow> jsstring \<Rightarrow> translator \<Rightarrow> jsstring \<times> translator" where
  "translate_resume language text translated s =
     (let s2 = (if translationCache s text = None
                then s\<lparr>translationCache := (translationCache s)(text \<mapsto> Map.empty)\<rparr>
                else s);
          s3 = s2\<lparr>translationCache := (translationCache s2)
                   (text \<mapsto> (case translationCache s2 text of
                                None \<Rightarrow> [language \<mapsto> translated]
                              | Some entry \<Rightarrow> entry(language \<mapsto> translated)))\<rparr>
      in (translated, s3))"

text \<open>
  An invocation during which nothing else touches the translator: \<open>translated\<close> is read
  only when the call is made.
\<close>

definition translate :: "Language \<Rightarrow> jsstring \<Rightarrow> jsstring \<Rightarrow> translator \<Rightarrow> jsstring \<times> translator" where
  "translate language text translated s =
     (case translate_begin language text s of
        (Returned v, s1) \<Rightarrow> (v, s1)
      | (Awaiting, s1) \<Rightarrow> translate_resume language text translated s1)"





subsection \<open>Voice registry\<close>

text \<open>The field \<^verbatim>\<open>default\<close> of a voice is named \<open>isDefault\<close> here.\<close>

record SpeechSynthesisVoice =
  voiceURI :: jsstring
  lang :: jsstring
  isDefault :: bool

record voices =
  availableVoices :: "SpeechSynthesisVoice list"
  selectedVoiceURI :: "jsstring option"

definition startsWith :: "jsstring \<Rightarrow> jsstring \<Rightarrow> bool" where
  "startsWith s p = (take (length p) s = p)"

definition initial_voices :: voices where
  "initial_voices = \<lparr>availableVoices = [], selectedVoiceURI = None\<rparr>"

text \<open>
  \<^verbatim>\<open>loadVoices\<close> is defined inside an effect: \<open>r\<close> is the render whose state the
  function closes over, \<open>platform\<close> is what \<^verbatim>\<open>getVoices()\<close> returns, and the last
  argument is the state the setters write to.
\<close>

definition loadVoices :: "voices \<Rightarrow> SpeechSynthesisVoice list \<Rightarrow> voices \<Rightarrow> voices" where
  "loadVoices r platform s =
     (let vs = filter (\<lambda>v. startsWith (lang v) (str ''en'')) platform;
          s1 = s\<lparr>availableVoices := vs\<rparr>
      in if \<not> truthy (selectedVoiceURI r) \<and> length vs > 0
         then s1\<lparr>selectedVoiceURI :=
                   Some (case find isDefault vs of
                           Some defaultVoice \<Rightarrow> voiceURI defaultVoice
                         | None \<Rightarrow> voiceURI (hd vs))\<rparr>
         else s1)"

text \<open>
  The effect has the dependency list \<^verbatim>\<open>[]\<close>: it runs once, after the first render,
  so the \<^verbatim>\<open>loadVoices\<close> it installs as \<^verbatim>\<open>onvoiceschanged\<close> and calls at once is
  the one of the first render, whose state is \<open>initial_voices\<close>.
\<close>

definition onvoiceschanged :: "SpeechSynthesisVoice list \<Rightarrow> voices \<Rightarrow> voices" where
  "onvoiceschanged platform s = loadVoices initial_voices platform s"

definition provider_mount :: "SpeechSynthesisVoice list \<Rightarrow> voices" where
  "provider_mount platform = onvoiceschanged platform initial_voices"

definition setSelectedVoiceURI :: "jsstring \<Rightarrow> voices \<Rightarrow> voices" where
  "setSelectedVoiceURI uri s = s\<lparr>selectedVoiceURI := Some uri\<rparr>"

datatype voice_event = VoicesChanged "SpeechSynthesisVoice list" | UserSelects jsstring

fun voice_step :: "voices \<Rightarrow> voice_event \<Rightarrow> voices" where
  "voice_step s (VoicesChanged platform) = onvoiceschanged platform s"
| "voice_step s (UserSelects uri) = setSelectedVoiceURI uri s"

section \<open>The mock-interview session\<close>

datatype InterviewState =
  STARTING | AWAITING_ANSWER | LISTENING | PROCESSING | DISPLAYING_FEEDBACK
  | PROCESSING_SUMMARY | COMPLETED

record InterviewTurn =
  question :: jsstring
  answer :: jsstring
  feedback :: jsstring

text \<open>
  The state cells of \<^verbatim>\<open>MockInterviewSessionScreen\<close>. The cell \<^verbatim>\<open>feedback\<close> is
  named \<open>feedbackS\<close>, since a turn has a field of that name. A value of this record is
  also what a render shows to the functions defined in it: they read the cells of their own
  render, whenever they run.
\<close>

record session =
  interviewState :: InterviewState
  currentQuestion :: jsstring
  stagedNextQuestion :: "jsstring option"
  userTranscript :: jsstring
  feedbackS :: jsstring
  interviewHistory :: "InterviewTurn list"
  summary :: jsstring

text \<open>What the component does to the world outside, in order.\<close>

datatype effect =
    SendMessageToAI jsstring
  | GetInterviewFeedbackAndNextQuestion jsstring jsstring
  | GenerateInterviewSummary "InterviewTurn list"
  | SpeakText jsstring
  | Navigate jsstring
  | Alert jsstring
  | RecognitionStart
  | RecognitionStop
  | SpeechSynthesisCancel

text \<open>
  The platform's side of a speech capture: \<open>Started\<close> after \<^verbatim>\<open>start()\<close>,
  \<open>Delivered\<close> once the capture has given its result or its error, \<open>Idle\<close> after
  its end event.
\<close>

datatype capture = Idle | Started | Delivered

text \<open>
  \<open>recognitionRef\<close> holds the recognition object, if one was made: the render \<open>r\<close> in
  which it was made, because its \<^verbatim>\<open>onresult\<close> calls the
  \<^verbatim>\<open>handleAnswerSubmission\<close> of that render. \<open>awaitingFeedback\<close> holds the calls of
  \<^verbatim>\<open>handleAnswerSubmission\<close> suspended at their \<^verbatim>\<open>await\<close>, each with its render
  and its argument; \<open>awaitingQuestion\<close> and \<open>awaitingSummary\<close> do the same for
  \<^verbatim>\<open>startInterview\<close> and \<^verbatim>\<open>handleEndInterview\<close>. \<open>speakText\<close> is the identity
  of the function the settings provider hands out, and \<open>speakDeps\<close> the dependency
  values of the last run of the effect that speaks the question.
\<close>

record world =
  cells :: session
  mounted :: bool
  hasSpeechRecognition :: bool
  hasSpeechSynthesis :: bool
  recognitionRef :: "session option"
  capture :: capture
  awaitingQuestion :: bool
  awaitingFeedback :: "(session \<times> jsstring) list"
  awaitingSummary :: nat
  effects :: "effect list"
  speakText :: nat
  speakDeps :: "(jsstring \<times> InterviewState \<times> nat) option"

definition emit :: "effect \<Rightarrow> world \<Rightarrow> world" where
  "emit e w = w\<lparr>effects := effects w @ [e]\<rparr>"

subsection \<open>State setters\<close>

definition setInterviewState :: "InterviewState \<Rightarrow> world \<Rightarrow> world" where
  "setInterviewState v w = w\<lparr>cells := (cells w)\<lparr>interviewState := v\<rparr>\<rparr>"

definition setInterviewState_by :: "(InterviewState \<Rightarrow> InterviewState) \<Rightarrow> world \<Rightarrow> world" where
  "setInterviewState_by f w = w\<lparr>cells := (cells w)\<lparr>interviewState := f (interviewState (cells w))\<rparr>\<rparr>"

definition setCurrentQuestion :: "jsstring \<Rightarrow> world \<Rightarrow> world" where
  "setCurrentQuestion v w = w\<lparr>cells := (cells w)\<lparr>currentQuestion := v\<rparr>\<rparr>"

definition setStagedNextQuestion :: "jsstring option \<Rightarrow> world \<Rightarrow> world" where
  "setStagedNextQuestion v w = w\<lparr>cells := (cells w)\<lparr>stagedNextQuestion := v\<rparr>\<rparr>"

definition setUserTranscript :: "jsstring \<Rightarrow> world \<Rightarrow> world" where
  "setUserTranscript v w = w\<lparr>cells := (cells w)\<lparr>userTranscript := v\<rparr>\<rparr>"

definition setFeedback :: "jsstring \<Rightarrow> world \<Rightarrow> world" where
  "setFeedback v w = w\<lparr>cells := (cells w)\<lparr>feedbackS := v\<rparr>\<rparr>"

definition setInterviewHistory_by :: "(InterviewTurn list \<Rightarrow> InterviewTurn list) \<Rightarrow> world \<Rightarrow> world" where
  "setInterviewHistory_by f w = w\<lparr>cells := (cells w)\<lparr>interviewHistory := f (interviewHistory (cells w))\<rparr>\<rparr>"

definition setSummary :: "jsstring \<Rightarrow> world \<Rightarrow> world" where
  "setSummary v w = w\<lparr>cells := (cells w)\<lparr>summary := v\<rparr>\<rparr>"

subsection \<open>Leaving the screen\<close>

text \<open>
  \<^verbatim>\<open>navigate('/guide')\<close> replaces the screen, so the cleanup of its first effect runs
  and the component is gone.
\<close>

definition cleanup :: "world \<Rightarrow> world" where
  "cleanup w =
     (let w1 = (if hasSpeechSynthesis w then emit SpeechSynthesisCancel w else w)
      in if recognitionRef w1 \<noteq> None then emit RecognitionStop w1 else w1)"

definition navigate :: "jsstring \<Rightarrow> world \<Rightarrow> world" where
  "navigate path w = (cleanup (emit (Navigate path) w))\<lparr>mounted := False\<rparr>"

subsection \<open>The functions of the component\<close>

text \<open>
  Each function takes the render \<open>r\<close> it was defined in where it reads a state cell, and
  the world it acts on. A function with an \<^verbatim>\<open>await\<close> is two definitions: the part up
  to the \<^verbatim>\<open>await\<close>, and \<open>_resume\<close>, the part after it, which takes what the awaited
  call resolved to.
\<close>

definition startInterview :: "world \<Rightarrow> world" where
  "startInterview w =
     (emit (SendMessageToAI (str ''Start a mock interview for a senior product manager role. Ask me the first behavioral question.''))
        (setInterviewState PROCESSING w))\<lparr>awaitingQuestion := True\<rparr>"

definition startInterview_resume :: "jsstring \<Rightarrow> world \<Rightarrow> world" where
  "startInterview_resume firstQuestion w =
     setInterviewState AWAITING_ANSWER (setCurrentQuestion (removeAsterisks firstQuestion) w)"

definition handleEndInterview :: "session \<Rightarrow> bool \<Rightarrow> world \<Rightarrow> world" where
  "handleEndInterview r isNaturalEnd w =
     (if length (interviewHistory r) = 0 \<and> \<not> isNaturalEnd then navigate (str ''/guide'') w
      else (emit (GenerateInterviewSummary (interviewHistory r))
              (setInterviewState PROCESSING_SUMMARY w))\<lparr>awaitingSummary := Suc (awaitingSummary w)\<rparr>)"

definition handleEndInterview_resume :: "jsstring \<Rightarrow> world \<Rightarrow> world" where
  "handleEndInterview_resume finalSummary w =
     setInterviewState COMPLETED (setSummary (removeAsterisks finalSummary) w)"

definition handleAnswerSubmission :: "session \<Rightarrow> jsstring \<Rightarrow> world \<Rightarrow> world" where
  "handleAnswerSubmission r transcript w =
     (if trim transcript = [] then setInterviewState AWAITING_ANSWER w
      else (emit (GetInterviewFeedbackAndNextQuestion (currentQuestion r) transcript)
              (setInterviewState PROCESSING w))
             \<lparr>awaitingFeedback := awaitingFeedback w @ [(r, transcript)]\<rparr>)"

definition handleAnswerSubmission_resume ::
    "session \<Rightarrow> jsstring \<Rightarrow> jsstring \<Rightarrow> jsstring option \<Rightarrow> world \<Rightarrow> world" where
  "handleAnswerSubmission_resume r transcript feedbackText nextQuestion w =
     (let cleanedFeedback = removeAsterisks feedbackText;
          cleanedNextQuestion =
            (case nextQuestion of
               None \<Rightarrow> None
             | Some n \<Rightarrow> if n \<noteq> [] then Some (removeAsterisks n) else None)
      in setInterviewState DISPLAYING_FEEDBACK
           (setStagedNextQuestion cleanedNextQuestion
             (setInterviewHistory_by
                (\<lambda>prev. prev @ [\<lparr>question = currentQuestion r, answer = transcript,
                                  feedback = cleanedFeedback\<rparr>])
                (setFeedback cleanedFeedback w))))"

text \<open>The three handlers that \<^verbatim>\<open>handleToggleListening\<close> gives a new recognition object.\<close>

definition onresult :: "session \<Rightarrow> jsstring \<Rightarrow> world \<Rightarrow> world" where
  "onresult r transcript w = handleAnswerSubmission r transcript (setUserTranscript transcript w)"

definition onend :: "world \<Rightarrow> world" where
  "onend w = setInterviewState_by (\<lambda>prev. if prev = LISTENING then AWAITING_ANSWER else prev) w"

definition onerror :: "world \<Rightarrow> world" where
  "onerror w = setInterviewState AWAITING_ANSWER w"

text \<open>
  \<^verbatim>\<open>start()\<close> on a capture that has not ended yet raises, after the two setters have
  been called: the platform's capture is then left as it is.
\<close>

definition handleToggleListening :: "session \<Rightarrow> world \<Rightarrow> world" where
  "handleToggleListening r w =
     (if \<not> hasSpeechRecognition w
      then emit (Alert (str ''Sorry, your browser doesn't support speech recognition.'')) w
      else if interviewState r = LISTENING
      then (if recognitionRef w \<noteq> None then emit RecognitionStop w else w)
      else
        (let w1 = (if recognitionRef w = None then w\<lparr>recognitionRef := Some r\<rparr> else w);
             w2 = setUserTranscript [] (setInterviewState LISTENING w1);
             w3 = emit RecognitionStart w2
         in if capture w3 = Idle then w3\<lparr>capture := Started\<rparr> else w3))"

definition handleNextQuestion :: "session \<Rightarrow> world \<Rightarrow> world" where
  "handleNextQuestion r w =
     (case stagedNextQuestion r of
        None \<Rightarrow> handleEndInterview r True w
      | Some q \<Rightarrow>
          if q \<noteq> []
          then setInterviewState AWAITING_ANSWER
                 (setStagedNextQuestion None
                   (setUserTranscript []
                     (setFeedback []
                       (setCurrentQuestion q w))))
          else handleEndInterview r True w)"

subsection \<open>The effect that speaks the question\<close>

text \<open>
  After a render React runs the effect if one of \<^verbatim>\<open>[currentQuestion, interviewState,
  speakText]\<close> differs from its value at the effect's last run.
\<close>

definition deps :: "world \<Rightarrow> jsstring \<times> InterviewState \<times> nat" where
  "deps w = (currentQuestion (cells w), interviewState (cells w), speakText w)"

definition speakEffect :: "world \<Rightarrow> world" where
  "speakEffect w =
     (if speakDeps w = Some (deps w) then w
      else
        (let w1 = w\<lparr>speakDeps := Some (deps w)\<rparr>
         in if currentQuestion (cells w) \<noteq> [] \<and> interviewState (cells w) = AWAITING_ANSWER
            then emit (SpeakText (currentQuestion (cells w))) w1
            else w1))"

subsection \<open>The session as a transition system\<close>

text \<open>
  The events that reach the mounted component: the three external calls resolving, the
  buttons, the three events of the recognition object, and the settings provider handing
  out a new \<^verbatim>\<open>speakText\<close>. A button acts only in the phases that render it, with the
  functions of the current render. The platform gives a capture at most one result or
  error, and then its end. A call resolves only if it is awaited; feedback calls resolve
  in the order they were made.
\<close>

datatype event =
    FirstQuestion jsstring
  | Toggle
  | OnResult jsstring
  | OnError
  | OnEnd
  | Feedback jsstring "jsstring option"
  | NextQuestion
  | EndInterview
  | Summary jsstring
  | Back
  | SpeakTextChanged

fun dispatch :: "world \<Rightarrow> event \<Rightarrow> world" where
  "dispatch w (FirstQuestion q) =
     (if awaitingQuestion w then startInterview_resume q (w\<lparr>awaitingQuestion := False\<rparr>) else w)"
| "dispatch w Toggle =
     (if interviewState (cells w) = AWAITING_ANSWER \<or> interviewState (cells w) = LISTENING
      then handleToggleListening (cells w) w else w)"
| "dispatch w (OnResult transcript) =
     (case recognitionRef w of
        None \<Rightarrow> w
      | Some r \<Rightarrow> if capture w = Started then onresult r transcript (w\<lparr>capture := Delivered\<rparr>) else w)"
| "dispatch w OnError =
     (if capture w = Started then onerror (w\<lparr>capture := Delivered\<rparr>) else w)"
| "dispatch w OnEnd =
     (if capture w \<noteq> Idle then onend (w\<lparr>capture := Idle\<rparr>) else w)"
| "dispatch w (Feedback feedbackText nextQuestion) =
     (case awaitingFeedback w of
        [] \<Rightarrow> w
      | (r, transcript) # rest \<Rightarrow>
          handleAnswerSubmission_resume r transcript feedbackText nextQuestion
            (w\<lparr>awaitingFeedback := rest\<rparr>))"
| "dispatch w NextQuestion =
     (if interviewState (cells w) = DISPLAYING_FEEDBACK then handleNextQuestion (cells w) w else w)"
| "dispatch w EndInterview =
     (if interviewState (cells w) = DISPLAYING_FEEDBACK then handleEndInterview (cells w) False w
      else w)"
| "dispatch w (Summary finalSummary) =
     (if awaitingSummary w > 0
      then handleEndInterview_resume finalSummary (w\<lparr>awaitingSummary := awaitingSummary w - 1\<rparr>)
      else w)"
| "dispatch w Back = navigate (str ''/guide'') w"
| "dispatch w SpeakTextChanged = w\<lparr>speakText := Suc (speakText w)\<rparr>"

definition step :: "world \<Rightarrow> event \<Rightarrow> world" where
  "step w e = (if mounted w then speakEffect (dispatch w e) else w)"

definition initial_session :: session where
  "initial_session =
     \<lparr>interviewState = STARTING, currentQuestion = [], stagedNextQuestion = None,
      userTranscript = [], feedbackS = [], interviewHistory = [], summary = []\<rparr>"

definition initial_world :: "bool \<Rightarrow> bool \<Rightarrow> world" where
  "initial_world sr ss =
     \<lparr>cells = initial_session, mounted = True, hasSpeechRecognition = sr,
      hasSpeechSynthesis = ss, recognitionRef = None, capture = Idle,
      awaitingQuestion = False, awaitingFeedback = [], awaitingSummary = 0, effects = [],
      speakText = 0, speakDeps = None\<rparr>"

text \<open>
  Mounting: the effects of the first render run (\<^verbatim>\<open>startInterview()\<close>, and the speaking
  effect on the cells of that render), then the render that \<^verbatim>\<open>startInterview\<close> asked
  for.
\<close>

definition mount :: "bool \<Rightarrow> bool \<Rightarrow> world" where
  "mount sr ss = speakEffect (startInterview (speakEffect (initial_world sr ss)))"

definition run :: "world \<Rightarrow> event list \<Rightarrow> world" where
  "run w es = foldl step w es"

subsection \<open>Observations and example sessions\<close>

text \<open>The histories the summarizer was called with, in order.\<close>

definition summarizerCalls :: "world \<Rightarrow> InterviewTurn list list" where
  "summarizerCalls w =
     concat (map (\<lambda>e. case e of GenerateInterviewSummary h \<Rightarrow> [h] | _ \<Rightarrow> []) (effects w))"

text \<open>The texts the speech output was called with, in order.\<close>

definition spoken :: "world \<Rightarrow> jsstring list" where
  "spoken w = concat (map (\<lambda>e. case e of SpeakText q \<Rightarrow> [q] | _ \<Rightarrow> []) (effects w))"

text \<open>
  What holds of every world a session reaches: which phase each suspended call and the
  platform's capture go with, and the phases in which a staged question and a summary
  occur.
\<close>

definition protocol :: "world \<Rightarrow> bool" where
  "protocol w =
     ((awaitingQuestion w \<longrightarrow> interviewState (cells w) = PROCESSING \<and> awaitingFeedback w = [])
    \<and> (awaitingFeedback w \<noteq> [] \<longrightarrow>
          interviewState (cells w) = PROCESSING \<and> length (awaitingFeedback w) = 1)
    \<and> (capture w = Started \<longrightarrow> interviewState (cells w) = LISTENING)
    \<and> (awaitingSummary w > 0 \<longrightarrow>
          interviewState (cells w) = PROCESSING_SUMMARY \<and> awaitingSummary w = 1)
    \<and> (stagedNextQuestion (cells w) \<noteq> None \<longrightarrow>
          interviewState (cells w) = DISPLAYING_FEEDBACK
          \<or> interviewState (cells w) = PROCESSING_SUMMARY
          \<or> interviewState (cells w) = COMPLETED)
    \<and> (summary (cells w) \<noteq> [] \<longrightarrow> interviewState (cells w) = COMPLETED))"

text \<open>
  A session up to the feedback on the first answer, where the feedback call also brought
  the next question \<open>Q2\<close>.
\<close>

definition first_feedback :: "event list" where
  "first_feedback =
     [FirstQuestion (str ''Q1*''), Toggle, OnResult (str ''a1''), OnEnd,
      Feedback (str ''ok'') (Some (str ''Q2''))]"

text \<open>The same session, on to the answer to the second question.\<close>

definition second_answer :: "event list" where
  "second_answer = first_feedback @ [NextQuestion, Toggle, OnResult (str ''a2'')]"

text \<open>A session whose first feedback brought a next question made of one asterisk.\<close>

definition asterisk_question :: "event list" where
  "asterisk_question =
     [FirstQuestion (str ''Q1''), Toggle, OnResult (str ''a1''), OnEnd,
      Feedback (str ''ok'') (Some (str ''*''))]"

text \<open>A session whose first feedback brought no next question.\<close>

definition last_feedback :: "event list" where
  "last_feedback =
     [FirstQuestion (str ''Q1''), Toggle, OnResult (str ''a1''), OnEnd,
      Feedback (str ''ok'') None]"

text \<open>Two voices of the platform; the first is the platform's default.\<close>

definition voiceA :: SpeechSynthesisVoice where
  "voiceA = \<lparr>voiceURI = str ''A'', lang = str ''en-US'', isDefault = True\<rparr>"

definition voiceB :: SpeechSynthesisVoice where
  "voiceB = \<lparr>voiceURI = str ''B'', lang = str ''en-GB'', isDefault = False\<rparr>"

section \<open>Properties\<close>

lemmas setters = setInterviewState_def setInterviewState_by_def setCurrentQuestion_def
  setStagedNextQuestion_def setUserTranscript_def setFeedback_def setInterviewHistory_by_def
  setSummary_def

lemmas texts = str_def removeAsterisks_def trim_def isWhiteSpace_def truthy_def

lemmas handlers = startInterview_def startInterview_resume_def handleEndInterview_def
  handleEndInterview_resume_def handleAnswerSubmission_def handleAnswerSubmission_resume_def
  onresult_def onend_def onerror_def handleToggleListening_def handleNextQuestion_def
  navigate_def cleanup_def emit_def

lemmas system = Let_def step_def speakEffect_def deps_def mount_def run_def initial_world_def
  initial_session_def

lemma trim_empty_iff: "trim t = [] \<longleftrightarrow> (\<forall>c\<in>set t. isWhiteSpace c)"
proof -
  have "(\<forall>x\<in>set (dropWhile isWhiteSpace t). isWhiteSpace x) \<longleftrightarrow> (\<forall>c\<in>set t. isWhiteSpace c)"
    by (induction t) auto
  then show ?thesis by (simp add: trim_def)
qed

subsection \<open>Translation\<close>

text \<open>
  C7. For every text \<open>x\<close>, translating into the base language returns \<open>x\<close> before
  anything is awaited, and leaves the translator as it was: the cache is not touched and
  no call of the translation collaborator is added.
\<close>

theorem translate_base_language:
  "translate_begin English x s = (Returned x, s) \<and> translate English x translated s = (x, s)"
  by (simp add: translate_def translate_begin_def)








subsection \<open>Answer submission\<close>

text \<open>
  C2. A transcript that is empty or has only whitespace sends the machine to
  \<open>AWAITING_ANSWER\<close>; the history is unchanged, no collaborator is called and no call
  is left suspended.
\<close>

theorem blank_transcript_not_submitted:
  assumes "\<forall>c\<in>set transcript. isWhiteSpace c"
  shows "interviewState (cells (handleAnswerSubmission r transcript w)) = AWAITING_ANSWER
    \<and> interviewHistory (cells (handleAnswerSubmission r transcript w)) = interviewHistory (cells w)
    \<and> effects (handleAnswerSubmission r transcript w) = effects w
    \<and> awaitingFeedback (handleAnswerSubmission r transcript w) = awaitingFeedback w"
  using assms by (simp add: handleAnswerSubmission_def trim_empty_iff setInterviewState_def)

theorem blank_transcript_not_submitted_witness:
  "isWhiteSpace 0x20 \<and> isWhiteSpace 0x09
   \<and> interviewState (cells (handleAnswerSubmission initial_session [0x20, 0x09] (mount True True)))
       = AWAITING_ANSWER
   \<and> effects (handleAnswerSubmission initial_session [0x20, 0x09] (mount True True))
       = effects (mount True True)"
proof -
  have h: "\<forall>c\<in>set [0x20, 0x09]. isWhiteSpace c"
    by (simp add: isWhiteSpace_def)
  from blank_transcript_not_submitted [OF h, of initial_session "mount True True"] h
  show ?thesis by simp
qed

text \<open>
  With the functions of the current render, a transcript that is not blank is submitted as
  follows: the phase becomes \<open>PROCESSING\<close> and the feedback collaborator is called with
  the current question and the transcript; its answer adds one turn at the end of the
  history, stages the next question and shows the feedback.
\<close>

lemma answer_submission_current_render:
  assumes "trim transcript \<noteq> []"
  shows "interviewState (cells (handleAnswerSubmission (cells w) transcript w)) = PROCESSING"
    and "effects (handleAnswerSubmission (cells w) transcript w)
           = effects w @ [GetInterviewFeedbackAndNextQuestion (currentQuestion (cells w)) transcript]"
    and "awaitingFeedback (handleAnswerSubmission (cells w) transcript w)
           = awaitingFeedback w @ [(cells w, transcript)]"
    and "cells (handleAnswerSubmission_resume (cells w) transcript feedbackText nextQuestion w')
           = (cells w')\<lparr>feedbackS := removeAsterisks feedbackText,
               interviewHistory := interviewHistory (cells w') @
                 [\<lparr>question = currentQuestion (cells w), answer = transcript,
                   feedback = removeAsterisks feedbackText\<rparr>],
               stagedNextQuestion :=
                 (if truthy nextQuestion then map_option removeAsterisks nextQuestion else None),
               interviewState := DISPLAYING_FEEDBACK\<rparr>"
  using assms
  by (simp_all add: handleAnswerSubmission_def handleAnswerSubmission_resume_def emit_def setters
      truthy_def Let_def split: option.splits)

text \<open>
  C1. The claim fails on the second question. The recognition object is made once, at the
  first press of the microphone button, and its \<^verbatim>\<open>onresult\<close> keeps calling the
  \<^verbatim>\<open>handleAnswerSubmission\<close> of that render: when the answer \<open>a2\<close> to the second
  question \<open>Q2\<close> is captured, the feedback collaborator is called with the first
  question \<open>Q1\<close>, and the turn added to the history has \<open>Q1\<close> as its question.
\<close>

theorem second_answer_submitted_with_first_question:
  "currentQuestion (cells (run (mount True True) second_answer)) = str ''Q2''
   \<and> last (effects (run (mount True True) second_answer))
       = GetInterviewFeedbackAndNextQuestion (str ''Q1'') (str ''a2'')
   \<and> interviewHistory (cells (run (mount True True) (second_answer @ [Feedback (str ''fine'') None])))
       = [\<lparr>question = str ''Q1'', answer = str ''a1'', feedback = str ''ok''\<rparr>,
          \<lparr>question = str ''Q1'', answer = str ''a2'', feedback = str ''fine''\<rparr>]"
  by (simp add: second_answer_def first_feedback_def system setters handlers texts)

subsection \<open>Advancing\<close>

text \<open>
  C3, as stated, fails where the staged question is the empty text: it is present, and the
  advance ends the interview instead of asking it.
\<close>

theorem empty_staged_question_not_promoted:
  "interviewState (cells (run (mount True True) asterisk_question)) = DISPLAYING_FEEDBACK
   \<and> stagedNextQuestion (cells (run (mount True True) asterisk_question)) = Some []
   \<and> currentQuestion (cells (dispatch (run (mount True True) asterisk_question) NextQuestion))
       = str ''Q1''
   \<and> interviewState (cells (dispatch (run (mount True True) asterisk_question) NextQuestion))
       = PROCESSING_SUMMARY"
  by (simp add: asterisk_question_def system setters handlers texts)

text \<open>
  C3, amended. From \<open>DISPLAYING_FEEDBACK\<close>, the advance action does this: if a staged
  question is present and not the empty text, it becomes the current question, the
  feedback, the transcript and the staged question are cleared, and the phase becomes
  \<open>AWAITING_ANSWER\<close>; if the staged question is absent or the empty text, the advance is
  the end-interview function with the natural-end flag set.
\<close>

theorem advance_from_feedback:
  assumes "interviewState (cells w) = DISPLAYING_FEEDBACK"
  shows "(stagedNextQuestion (cells w) = Some q \<and> q \<noteq> [] \<longrightarrow>
            dispatch w NextQuestion =
              w\<lparr>cells := (cells w)\<lparr>currentQuestion := q, feedbackS := [], userTranscript := [],
                   stagedNextQuestion := None, interviewState := AWAITING_ANSWER\<rparr>\<rparr>)
       \<and> (\<not> truthy (stagedNextQuestion (cells w)) \<longrightarrow>
            dispatch w NextQuestion = handleEndInterview (cells w) True w)"
  using assms
  by (auto simp add: handleNextQuestion_def setters truthy_def split: option.splits)

theorem advance_from_feedback_witness:
  "interviewState (cells (run (mount True True) first_feedback)) = DISPLAYING_FEEDBACK
   \<and> stagedNextQuestion (cells (run (mount True True) first_feedback)) = Some (str ''Q2'')
   \<and> cells (dispatch (run (mount True True) first_feedback) NextQuestion)
       = (cells (run (mount True True) first_feedback))
           \<lparr>currentQuestion := str ''Q2'', feedbackS := [], userTranscript := [],
            stagedNextQuestion := None, interviewState := AWAITING_ANSWER\<rparr>
   \<and> interviewState (cells (run (mount True True) last_feedback)) = DISPLAYING_FEEDBACK
   \<and> stagedNextQuestion (cells (run (mount True True) last_feedback)) = None
   \<and> dispatch (run (mount True True) last_feedback) NextQuestion
       = handleEndInterview (cells (run (mount True True) last_feedback)) True
           (run (mount True True) last_feedback)"
proof -
  have a: "interviewState (cells (run (mount True True) first_feedback)) = DISPLAYING_FEEDBACK"
    and b: "stagedNextQuestion (cells (run (mount True True) first_feedback)) = Some (str ''Q2'')"
    and c: "str ''Q2'' \<noteq> []"
    by (simp_all add: first_feedback_def system setters handlers texts)
  have d: "interviewState (cells (run (mount True True) last_feedback)) = DISPLAYING_FEEDBACK"
    and e: "stagedNextQuestion (cells (run (mount True True) last_feedback)) = None"
    by (simp_all add: last_feedback_def system setters handlers texts)
  from advance_from_feedback [OF a, of "str ''Q2''"] b c
  have "cells (dispatch (run (mount True True) first_feedback) NextQuestion)
       = (cells (run (mount True True) first_feedback))
           \<lparr>currentQuestion := str ''Q2'', feedbackS := [], userTranscript := [],
            stagedNextQuestion := None, interviewState := AWAITING_ANSWER\<rparr>"
    by simp
  moreover from advance_from_feedback [OF d, of "[]"] e
  have "dispatch (run (mount True True) last_feedback) NextQuestion
       = handleEndInterview (cells (run (mount True True) last_feedback)) True
           (run (mount True True) last_feedback)"
    by (simp add: truthy_def)
  ultimately show ?thesis using a b d e by simp
qed

subsection \<open>Ending the interview\<close>

text \<open>
  C4. With an empty history and the natural-end flag false, ending the interview leaves
  the screen: the summarizer is not called, no call is left suspended and the phase is
  not changed. Otherwise the phase becomes \<open>PROCESSING_SUMMARY\<close> and the summarizer is
  called with the whole history; when it answers, the summary is its answer without
  asterisks and the phase is \<open>COMPLETED\<close>.
\<close>

theorem end_interview_summary:
  "(interviewHistory (cells w) = [] \<and> \<not> isNaturalEnd \<longrightarrow>
      summarizerCalls (handleEndInterview (cells w) isNaturalEnd w) = summarizerCalls w
      \<and> awaitingSummary (handleEndInterview (cells w) isNaturalEnd w) = awaitingSummary w
      \<and> cells (handleEndInterview (cells w) isNaturalEnd w) = cells w
      \<and> \<not> mounted (handleEndInterview (cells w) isNaturalEnd w))
   \<and> (\<not> (interviewHistory (cells w) = [] \<and> \<not> isNaturalEnd) \<longrightarrow>
      interviewState (cells (handleEndInterview (cells w) isNaturalEnd w)) = PROCESSING_SUMMARY
      \<and> effects (handleEndInterview (cells w) isNaturalEnd w)
          = effects w @ [GenerateInterviewSummary (interviewHistory (cells w))]
      \<and> cells (dispatch (handleEndInterview (cells w) isNaturalEnd w) (Summary finalSummary))
          = (cells w)\<lparr>summary := removeAsterisks finalSummary, interviewState := COMPLETED\<rparr>)"
  by (simp add: handleEndInterview_def handleEndInterview_resume_def navigate_def cleanup_def
      emit_def summarizerCalls_def setters Let_def)

theorem end_interview_summary_witness:
  "interviewHistory (cells (mount True True)) = []
   \<and> summarizerCalls (handleEndInterview (cells (mount True True)) False (mount True True)) = []
   \<and> \<not> mounted (handleEndInterview (cells (mount True True)) False (mount True True))
   \<and> interviewHistory (cells (run (mount True True) first_feedback)) \<noteq> []
   \<and> summarizerCalls (handleEndInterview (cells (run (mount True True) first_feedback)) False
        (run (mount True True) first_feedback))
       = [[\<lparr>question = str ''Q1'', answer = str ''a1'', feedback = str ''ok''\<rparr>]]
   \<and> summary (cells (dispatch (handleEndInterview (cells (run (mount True True) first_feedback)) False
        (run (mount True True) first_feedback)) (Summary (str ''*Well* done''))))
       = str ''Well done''
   \<and> interviewState (cells (dispatch (handleEndInterview (cells (run (mount True True) first_feedback))
        False (run (mount True True) first_feedback)) (Summary (str ''*Well* done''))))
       = COMPLETED"
proof -
  have a: "interviewHistory (cells (mount True True)) = []"
    and b: "summarizerCalls (mount True True) = []"
    by (simp_all add: system startInterview_def emit_def setters summarizerCalls_def)
  have c: "interviewHistory (cells (run (mount True True) first_feedback))
             = [\<lparr>question = str ''Q1'', answer = str ''a1'', feedback = str ''ok''\<rparr>]"
    and d: "summarizerCalls (run (mount True True) first_feedback) = []"
    by (simp_all add: first_feedback_def system setters handlers texts summarizerCalls_def)
  from end_interview_summary [of "mount True True" False] a b
  have 1: "summarizerCalls (handleEndInterview (cells (mount True True)) False (mount True True)) = []
     \<and> \<not> mounted (handleEndInterview (cells (mount True True)) False (mount True True))"
    by simp
  from end_interview_summary [of "run (mount True True) first_feedback" False "str ''*Well* done''"] c
  have 2: "effects (handleEndInterview (cells (run (mount True True) first_feedback)) False
              (run (mount True True) first_feedback))
            = effects (run (mount True True) first_feedback)
              @ [GenerateInterviewSummary [\<lparr>question = str ''Q1'', answer = str ''a1'', feedback = str ''ok''\<rparr>]]"
    and 3: "cells (dispatch (handleEndInterview (cells (run (mount True True) first_feedback)) False
              (run (mount True True) first_feedback)) (Summary (str ''*Well* done'')))
            = (cells (run (mount True True) first_feedback))
                \<lparr>summary := removeAsterisks (str ''*Well* done''), interviewState := COMPLETED\<rparr>"
    by simp_all
  from 2 d have 4: "summarizerCalls (handleEndInterview (cells (run (mount True True) first_feedback)) False
        (run (mount True True) first_feedback))
       = [[\<lparr>question = str ''Q1'', answer = str ''a1'', feedback = str ''ok''\<rparr>]]"
    by (simp add: summarizerCalls_def)
  from 3 have 5: "summary (cells (dispatch (handleEndInterview (cells (run (mount True True) first_feedback)) False
        (run (mount True True) first_feedback)) (Summary (str ''*Well* done''))))
       = str ''Well done''"
    and 6: "interviewState (cells (dispatch (handleEndInterview (cells (run (mount True True) first_feedback))
        False (run (mount True True) first_feedback)) (Summary (str ''*Well* done''))))
       = COMPLETED"
    by (simp_all add: texts)
  from a 1 c 4 5 6 show ?thesis by simp
qed

subsection \<open>The end of a capture\<close>

text \<open>
  C10. The end event of a capture sends the machine to \<open>AWAITING_ANSWER\<close> if the phase
  is still \<open>LISTENING\<close>; in any other phase it changes nothing.
\<close>

theorem capture_end_only_while_listening:
  "(interviewState (cells w) = LISTENING \<longrightarrow> onend w = setInterviewState AWAITING_ANSWER w)
   \<and> (interviewState (cells w) \<noteq> LISTENING \<longrightarrow> onend w = w)"
  by (simp add: onend_def setters)

theorem capture_end_only_while_listening_witness:
  "interviewState (cells (run (mount True True) [FirstQuestion (str ''Q1''), Toggle])) = LISTENING
   \<and> interviewState (cells (onend (run (mount True True) [FirstQuestion (str ''Q1''), Toggle])))
       = AWAITING_ANSWER
   \<and> interviewState (cells (run (mount True True)
        [FirstQuestion (str ''Q1''), Toggle, OnResult (str ''a1'')])) = PROCESSING
   \<and> onend (run (mount True True) [FirstQuestion (str ''Q1''), Toggle, OnResult (str ''a1'')])
       = run (mount True True) [FirstQuestion (str ''Q1''), Toggle, OnResult (str ''a1'')]"
proof -
  have a: "interviewState (cells (run (mount True True) [FirstQuestion (str ''Q1''), Toggle])) = LISTENING"
    and b: "interviewState (cells (run (mount True True)
        [FirstQuestion (str ''Q1''), Toggle, OnResult (str ''a1'')])) = PROCESSING"
    by (simp_all add: system setters handlers texts)
  from capture_end_only_while_listening [of "run (mount True True) [FirstQuestion (str ''Q1''), Toggle]"] a
  have 1: "interviewState (cells (onend (run (mount True True) [FirstQuestion (str ''Q1''), Toggle])))
       = AWAITING_ANSWER"
    by (simp add: setInterviewState_def)
  from capture_end_only_while_listening
    [of "run (mount True True) [FirstQuestion (str ''Q1''), Toggle, OnResult (str ''a1'')]"] b
  have 2: "onend (run (mount True True) [FirstQuestion (str ''Q1''), Toggle, OnResult (str ''a1'')])
       = run (mount True True) [FirstQuestion (str ''Q1''), Toggle, OnResult (str ''a1'')]"
    by simp
  from a b 1 2 show ?thesis by simp
qed

subsection \<open>Voice registry\<close>

text \<open>
  Had \<^verbatim>\<open>loadVoices\<close> been the function of a render that shows the selection, a
  refresh would keep it.
\<close>

lemma loadVoices_keeps_selection_it_sees:
  "truthy (selectedVoiceURI r) \<Longrightarrow> selectedVoiceURI (loadVoices r platform s) = selectedVoiceURI s"
  by (simp add: loadVoices_def Let_def)

text \<open>
  C9. The claim fails at the first refresh after a selection. The \<^verbatim>\<open>loadVoices\<close>
  that the platform calls is the one of the first render, where no voice is selected:
  with the English voices \<open>B\<close> and \<open>A\<close>, of which \<open>A\<close> is the platform's default, the
  provider selects \<open>A\<close> when it mounts, the user selects \<open>B\<close>, and a change of the
  platform's voice list selects \<open>A\<close> again.
\<close>

theorem refresh_overwrites_selection:
  "selectedVoiceURI (provider_mount [voiceB, voiceA]) = Some (str ''A'')
   \<and> selectedVoiceURI (foldl voice_step (provider_mount [voiceB, voiceA]) [UserSelects (str ''B'')])
       = Some (str ''B'')
   \<and> selectedVoiceURI (foldl voice_step (provider_mount [voiceB, voiceA])
        [UserSelects (str ''B''), VoicesChanged [voiceB, voiceA]])
       = Some (str ''A'')"
  by (simp add: provider_mount_def onvoiceschanged_def loadVoices_def initial_voices_def
      setSelectedVoiceURI_def voiceA_def voiceB_def startsWith_def truthy_def str_def)

subsection \<open>Phases of the staged question and of the summary\<close>

lemma protocol_mount: "protocol (mount sr ss)"
  by (simp add: protocol_def system startInterview_def emit_def setters)

lemma protocol_speakEffect: "protocol (speakEffect w) = protocol w"
  by (simp add: protocol_def speakEffect_def emit_def Let_def)

lemma protocol_FirstQuestion: "protocol w \<Longrightarrow> protocol (dispatch w (FirstQuestion q))"
  by (cases "interviewState (cells w)")
     (simp_all add: protocol_def startInterview_resume_def setters)

lemma protocol_Toggle: "protocol w \<Longrightarrow> protocol (dispatch w Toggle)"
  by (cases "interviewState (cells w)")
     (simp_all add: protocol_def handleToggleListening_def emit_def setters Let_def)

lemma protocol_OnResult: "protocol w \<Longrightarrow> protocol (dispatch w (OnResult t))"
  by (cases "interviewState (cells w)")
     (simp_all add: protocol_def onresult_def handleAnswerSubmission_def emit_def setters
        split: option.splits)

lemma protocol_OnError: "protocol w \<Longrightarrow> protocol (dispatch w OnError)"
  by (cases "interviewState (cells w)") (simp_all add: protocol_def onerror_def setters)

lemma protocol_OnEnd: "protocol w \<Longrightarrow> protocol (dispatch w OnEnd)"
  by (cases "interviewState (cells w)") (simp_all add: protocol_def onend_def setters)

lemma protocol_Feedback: "protocol w \<Longrightarrow> protocol (dispatch w (Feedback f n))"
  by (cases "interviewState (cells w)")
     (auto simp add: protocol_def handleAnswerSubmission_resume_def setters Let_def
        split: list.splits)

lemma protocol_handleEndInterview:
  "protocol w \<Longrightarrow> interviewState (cells w) = DISPLAYING_FEEDBACK
     \<Longrightarrow> protocol (handleEndInterview r b w)"
  by (simp add: protocol_def handleEndInterview_def navigate_def cleanup_def emit_def setters
      Let_def)

lemma protocol_NextQuestion:
  assumes p: "protocol w"
  shows "protocol (dispatch w NextQuestion)"
proof (cases "interviewState (cells w) = DISPLAYING_FEEDBACK")
  case False
  with p show ?thesis by simp
next
  case shown: True
  show ?thesis
  proof (cases "truthy (stagedNextQuestion (cells w))")
    case False
    then have "handleNextQuestion (cells w) w = handleEndInterview (cells w) True w"
      by (simp add: handleNextQuestion_def truthy_def split: option.splits)
    with p shown show ?thesis
      by (simp add: protocol_handleEndInterview)
  next
    case True
    then obtain q where "stagedNextQuestion (cells w) = Some q" and "q \<noteq> []"
      by (auto simp add: truthy_def split: option.splits)
    with p shown show ?thesis
      by (simp add: handleNextQuestion_def protocol_def setters)
  qed
qed

lemma protocol_EndInterview: "protocol w \<Longrightarrow> protocol (dispatch w EndInterview)"
  by (simp add: protocol_handleEndInterview)

lemma protocol_Summary: "protocol w \<Longrightarrow> protocol (dispatch w (Summary t))"
  by (cases "interviewState (cells w)")
     (simp_all add: protocol_def handleEndInterview_resume_def setters)

lemma protocol_Back: "protocol w \<Longrightarrow> protocol (dispatch w Back)"
  by (simp add: protocol_def navigate_def cleanup_def emit_def Let_def)

lemma protocol_SpeakTextChanged: "protocol w \<Longrightarrow> protocol (dispatch w SpeakTextChanged)"
  by (simp add: protocol_def)

lemma protocol_dispatch: "protocol w \<Longrightarrow> protocol (dispatch w e)"
  by (cases e)
     (simp_all only: protocol_FirstQuestion protocol_Toggle protocol_OnResult protocol_OnError
        protocol_OnEnd protocol_Feedback protocol_NextQuestion protocol_EndInterview
        protocol_Summary protocol_Back protocol_SpeakTextChanged)

lemma protocol_step: "protocol w \<Longrightarrow> protocol (step w e)"
  by (simp add: step_def protocol_speakEffect protocol_dispatch)

lemma protocol_run: "protocol w \<Longrightarrow> protocol (run w es)"
  unfolding run_def by (induction es arbitrary: w) (simp_all add: protocol_step)

text \<open>
  C5, as stated, fails when the interview is ended while a next question is staged:
  \<^verbatim>\<open>handleEndInterview\<close> does not clear the staged question, which is still there in
  \<open>PROCESSING_SUMMARY\<close>.
\<close>

theorem staged_question_survives_end:
  "stagedNextQuestion (cells (run (mount True True) (first_feedback @ [EndInterview])))
     = Some (str ''Q2'')
   \<and> str ''Q2'' \<noteq> []
   \<and> interviewState (cells (run (mount True True) (first_feedback @ [EndInterview])))
       = PROCESSING_SUMMARY"
  by (simp add: first_feedback_def system setters handlers texts)

text \<open>
  C5, amended. In every state a session reaches, a staged question is present only in the
  phases \<open>DISPLAYING_FEEDBACK\<close>, \<open>PROCESSING_SUMMARY\<close> and \<open>COMPLETED\<close> (ending the
  interview leaves it in place), and the summary is non-empty only in \<open>COMPLETED\<close>.
\<close>

theorem staged_question_and_summary_phases:
  assumes "w = run (mount sr ss) es"
  shows "(stagedNextQuestion (cells w) \<noteq> None \<longrightarrow>
            interviewState (cells w) = DISPLAYING_FEEDBACK
            \<or> interviewState (cells w) = PROCESSING_SUMMARY
            \<or> interviewState (cells w) = COMPLETED)
       \<and> (summary (cells w) \<noteq> [] \<longrightarrow> interviewState (cells w) = COMPLETED)"
proof -
  have "protocol w"
    unfolding assms by (rule protocol_run) (rule protocol_mount)
  then show ?thesis
    by (simp add: protocol_def)
qed

theorem staged_question_and_summary_phases_witness:
  "stagedNextQuestion (cells (run (mount True True)
       (first_feedback @ [EndInterview, Summary (str ''Well done'')]))) = Some (str ''Q2'')
   \<and> summary (cells (run (mount True True)
       (first_feedback @ [EndInterview, Summary (str ''Well done'')]))) = str ''Well done''
   \<and> str ''Well done'' \<noteq> []
   \<and> interviewState (cells (run (mount True True)
       (first_feedback @ [EndInterview, Summary (str ''Well done'')]))) = COMPLETED"
proof -
  have a: "stagedNextQuestion (cells (run (mount True True)
       (first_feedback @ [EndInterview, Summary (str ''Well done'')]))) = Some (str ''Q2'')"
    and b: "summary (cells (run (mount True True)
       (first_feedback @ [EndInterview, Summary (str ''Well done'')]))) = str ''Well done''"
    by (simp_all add: first_feedback_def system setters handlers texts)
  have c: "str ''Well done'' \<noteq> []"
    by (simp add: str_def)
  from staged_question_and_summary_phases
    [OF refl, of True True "first_feedback @ [EndInterview, Summary (str ''Well done'')]"] b c
  have "interviewState (cells (run (mount True True)
       (first_feedback @ [EndInterview, Summary (str ''Well done'')]))) = COMPLETED"
    by simp
  with a b c show ?thesis by simp
qed

subsection \<open>Speaking the question\<close>

lemma speakEffect_cells: "cells (speakEffect w) = cells w"
  by (simp add: speakEffect_def emit_def Let_def)

lemma speakEffect_deps: "deps (speakEffect w) = deps w"
  by (simp add: speakEffect_def deps_def emit_def Let_def)

lemma speakEffect_speakDeps: "speakDeps (speakEffect w) = Some (deps w)"
  by (simp add: speakEffect_def emit_def Let_def)

lemma dispatch_speakDeps: "speakDeps (dispatch w e) = speakDeps w"
  by (cases e) (simp_all add: handlers setters Let_def split: option.splits list.splits)

lemma dispatch_spoken: "spoken (dispatch w e) = spoken w"
  by (cases e) (simp_all add: spoken_def handlers setters Let_def split: option.splits list.splits)

lemma step_speakDeps: "speakDeps w = Some (deps w) \<Longrightarrow> speakDeps (step w e) = Some (deps (step w e))"
  by (simp add: step_def speakEffect_speakDeps speakEffect_deps)

lemma run_speakDeps: "speakDeps w = Some (deps w) \<Longrightarrow> speakDeps (run w es) = Some (deps (run w es))"
  unfolding run_def by (induction es arbitrary: w) (simp_all add: step_speakDeps)

lemma mount_speakDeps: "speakDeps (mount sr ss) = Some (deps (mount sr ss))"
  by (simp add: mount_def speakEffect_speakDeps speakEffect_deps)

text \<open>
  C6, as stated, fails when the machine comes back to \<open>AWAITING_ANSWER\<close> with the same
  question: after a capture that ended without a result the question is spoken a second
  time.
\<close>

theorem question_spoken_again_after_capture:
  "currentQuestion (cells (run (mount True True) [FirstQuestion (str ''Q1''), Toggle, OnEnd]))
     = str ''Q1''
   \<and> spoken (run (mount True True) [FirstQuestion (str ''Q1'')]) = [str ''Q1'']
   \<and> spoken (run (mount True True) [FirstQuestion (str ''Q1''), Toggle, OnEnd])
       = [str ''Q1'', str ''Q1'']"
  by (simp add: spoken_def system setters handlers texts)

text \<open>
  C6, amended. At every event of a session, the speech output is called with the current
  question, once, if the event changed one of the current question, the phase and the
  \<^verbatim>\<open>speakText\<close> function, and the phase is then \<open>AWAITING_ANSWER\<close> with a current
  question that is not empty; otherwise the event calls no speech output. So a question
  is spoken at every entry into \<open>AWAITING_ANSWER\<close>, also a repeated one, and not by an
  event that leaves the three values as they were.
\<close>

theorem question_spoken_when_dependencies_change:
  assumes "w = run (mount sr ss) es"
  shows "spoken (step w e) = spoken w @
           (if mounted w \<and> deps (step w e) \<noteq> deps w
               \<and> interviewState (cells (step w e)) = AWAITING_ANSWER
               \<and> currentQuestion (cells (step w e)) \<noteq> []
            then [currentQuestion (cells (step w e))] else [])"
proof (cases "mounted w")
  case False
  then show ?thesis by (simp add: step_def)
next
  case True
  have "speakDeps w = Some (deps w)"
    unfolding assms by (rule run_speakDeps) (rule mount_speakDeps)
  then have "speakDeps (dispatch w e) = Some (deps w)"
    by (simp add: dispatch_speakDeps)
  moreover have "spoken (dispatch w e) = spoken w"
    by (rule dispatch_spoken)
  ultimately have "spoken (speakEffect (dispatch w e)) = spoken w @
           (if deps (dispatch w e) \<noteq> deps w
               \<and> interviewState (cells (dispatch w e)) = AWAITING_ANSWER
               \<and> currentQuestion (cells (dispatch w e)) \<noteq> []
            then [currentQuestion (cells (dispatch w e))] else [])"
    by (auto simp add: speakEffect_def spoken_def emit_def Let_def)
  with True show ?thesis
    by (simp add: step_def speakEffect_deps speakEffect_cells)
qed

theorem question_spoken_when_dependencies_change_witness:
  "spoken (run (mount True True) first_feedback) = [str ''Q1'']
   \<and> spoken (step (run (mount True True) first_feedback) NextQuestion) = [str ''Q1'', str ''Q2'']
   \<and> spoken (step (run (mount True True) first_feedback) OnEnd) = [str ''Q1'']"
proof -
  have a: "spoken (run (mount True True) first_feedback) = [str ''Q1'']"
    by (simp add: spoken_def first_feedback_def system setters handlers texts)
  have b: "mounted (run (mount True True) first_feedback)"
    and c: "deps (run (mount True True) first_feedback) = (str ''Q1'', DISPLAYING_FEEDBACK, 0)"
    and d: "deps (step (run (mount True True) first_feedback) NextQuestion)
              = (str ''Q2'', AWAITING_ANSWER, 0)"
    and e: "cells (step (run (mount True True) first_feedback) NextQuestion)
              = \<lparr>interviewState = AWAITING_ANSWER, currentQuestion = str ''Q2'',
                 stagedNextQuestion = None, userTranscript = [], feedbackS = [],
                 interviewHistory = [\<lparr>question = str ''Q1'', answer = str ''a1'', feedback = str ''ok''\<rparr>],
                 summary = []\<rparr>"
    and f: "deps (step (run (mount True True) first_feedback) OnEnd)
              = (str ''Q1'', DISPLAYING_FEEDBACK, 0)"
    by (simp_all add: first_feedback_def system setters handlers texts)
  from question_spoken_when_dependencies_change [OF refl, of True True first_feedback NextQuestion]
    a b c d e
  have 1: "spoken (step (run (mount True True) first_feedback) NextQuestion) = [str ''Q1'', str ''Q2'']"
    by (simp add: str_def)
  from question_spoken_when_dependencies_change [OF refl, of True True first_feedback OnEnd]
    a b c f
  have 2: "spoken (step (run (mount True True) first_feedback) OnEnd) = [str ''Q1'']"
    by simp
  from a 1 2 show ?thesis by simp
qed

end
